theory Spec2Isabelle
  imports Main "HOL-Library.Char_ord" "HOL-Library.List_Lexorder"
begin

section \<open>Session records (internal/session/types.go)\<close>

text \<open>
  \<^verbatim>\<open>type SessionType string\<close>: any string can be stored in the field; the three
  constants are the values the program itself writes.
\<close>

type_synonym SessionType = string

definition SessionTypeTmux :: SessionType where
  "SessionTypeTmux = ''tmux''"

definition SessionTypeTmuxinator :: SessionType where
  "SessionTypeTmuxinator = ''tmuxinator''"

definition SessionTypeDefault :: SessionType where
  "SessionTypeDefault = ''default''"

text \<open>
  The struct \<^verbatim>\<open>Session\<close>. \<^verbatim>\<open>WindowCount\<close> is a Go \<^verbatim>\<open>int\<close>; the engine only
  compares it with 1 and prints it, so it is an unbounded integer here. \<^verbatim>\<open>CreatedAt\<close> is
  a \<^verbatim>\<open>time.Time\<close>, which the engine never reads; it is an integer timestamp whose zero
  value is 0.
\<close>

record Session =
  Name :: string
  Type :: SessionType
  WindowCount :: int
  Directory :: string
  Description :: string
  IsActive :: bool
  TmuxinatorProject :: string
  CreatedAt :: int

text \<open>The zero value of the struct: a Go composite literal leaves omitted fields at it.\<close>

definition Session_zero :: Session where
  "Session_zero = \<lparr>Name = [], Type = [], WindowCount = 0, Directory = [], Description = [],
     IsActive = False, TmuxinatorProject = [], CreatedAt = 0\<rparr>"

text \<open>
  The struct \<^verbatim>\<open>SessionConfig\<close>; its fields \<^verbatim>\<open>Name\<close>, \<^verbatim>\<open>Description\<close>,
  \<^verbatim>\<open>Directory\<close> and \<^verbatim>\<open>TmuxinatorProject\<close> carry the prefix \<open>cfg_\<close> because a selector
  name can belong to one record only.
\<close>

record SessionConfig =
  cfg_Name :: string
  cfg_Description :: string
  cfg_Directory :: string
  cfg_TmuxinatorProject :: string

text \<open>\<^verbatim>\<open>fmt.Sprintf("%d", i)\<close>: the decimal digits, with a minus sign below zero.\<close>

fun digits :: "nat \<Rightarrow> string" where
  "digits n = (if n < 10 then [''0123456789'' ! n]
               else digits (n div 10) @ [''0123456789'' ! (n mod 10)])"

definition Sprintf_d :: "int \<Rightarrow> string" where
  "Sprintf_d i = (if i < 0 then CHR ''-'' # digits (nat (- i)) else digits (nat i))"

definition formatWindowCount :: "int \<Rightarrow> string" where
  "formatWindowCount count' =
     (if count' = 1 then ''1 window'' else Sprintf_d count' @ '' windows'')"

definition DisplayInfo :: "Session \<Rightarrow> string" where
  "DisplayInfo s =
     (if Type s = SessionTypeTmux then
        Name s @ '' ('' @ formatWindowCount (WindowCount s) @ '')''
      else if Type s = SessionTypeTmuxinator then Name s @ '' (tmuxinator)''
      else if Type s = SessionTypeDefault then Name s @ '' (not started)''
      else Name s)"

section \<open>Errors and results\<close>

text \<open>
  A Go \<^verbatim>\<open>error\<close> value: \<open>Err msg\<close> is an error made with \<^verbatim>\<open>errors.New\<close> or with
  \<^verbatim>\<open>fmt.Errorf\<close> without \<^verbatim>\<open>%w\<close>; \<open>Wrap prefix e\<close> is
  \<^verbatim>\<open>fmt.Errorf(prefix + "%w", e)\<close>, which keeps \<open>e\<close> reachable by unwrapping. A result
  of type \<^verbatim>\<open>error\<close> is an \<open>error option\<close>, \<open>None\<close> for \<^verbatim>\<open>nil\<close>; a result
  \<^verbatim>\<open>(T, error)\<close> of a port is a sum, \<open>Inl\<close> when the error is not nil (the engine
  never reads the value then).
\<close>

datatype error = Err string | Wrap string error

fun Error :: "error \<Rightarrow> string" where
  "Error (Err msg) = msg"
| "Error (Wrap prefix e) = prefix @ Error e"

text \<open>
  A method of the engine either returns, or panics when it reads a field through the nil
  pointer that \<^verbatim>\<open>GetSessionConfig\<close> may hand back together with a nil error.
\<close>

datatype 'a outcome = Returned 'a | Panicked

section \<open>The three ports (the interfaces TmuxClient, TmuxinatorClient, ConfigLoader)\<close>

text \<open>
  Every call the engine makes on a port, with its arguments. The engine threads the list
  of calls made so far; a port answers a call as a function of that list, so a port whose
  answers change from one call to the next (the outside world moves between them) is one
  of the behaviours quantified over. Port calls are assumed to return.
\<close>

datatype call =
    CallListSessions
  | CallSessionExists string
  | CallCreateSession Session
  | CallSwitchToSession string bool
  | CallAttachToSession string
  | CallIsInsideTmux
  | CallSwitchToLastSession
  | CallDeleteSession string
  | CallReloadConfig
  | CallListProjects
  | CallProjectExists string
  | CallStartProject string bool
  | CallIsInstalled
  | CallLoadDefaultSessions string
  | CallGetSessionConfig string string

type_synonym history = "call list"

record TmuxClient =
  tmux_ListSessions :: "history \<Rightarrow> error + Session list"
  tmux_SessionExists :: "history \<Rightarrow> string \<Rightarrow> error + bool"
  tmux_CreateSession :: "history \<Rightarrow> Session \<Rightarrow> error option"
  tmux_SwitchToSession :: "history \<Rightarrow> string \<Rightarrow> bool \<Rightarrow> error option"
  tmux_AttachToSession :: "history \<Rightarrow> string \<Rightarrow> error option"
  tmux_IsInsideTmux :: "history \<Rightarrow> bool"
  tmux_SwitchToLastSession :: "history \<Rightarrow> error option"
  tmux_DeleteSession :: "history \<Rightarrow> string \<Rightarrow> error option"
  tmux_ReloadConfig :: "history \<Rightarrow> error option"

record TmuxinatorClient =
  tmuxinator_ListProjects :: "history \<Rightarrow> error + string list"
  tmuxinator_ProjectExists :: "history \<Rightarrow> string \<Rightarrow> error + bool"
  tmuxinator_StartProject :: "history \<Rightarrow> string \<Rightarrow> bool \<Rightarrow> error option"
  tmuxinator_IsInstalled :: "history \<Rightarrow> bool"

text \<open>
  \<^verbatim>\<open>GetSessionConfig\<close> returns \<^verbatim>\<open>(*SessionConfig, error)\<close>: \<open>Inr None\<close> is a nil
  pointer with a nil error.
\<close>

record ConfigLoader =
  config_LoadDefaultSessions :: "history \<Rightarrow> string \<Rightarrow> error + SessionConfig list"
  config_GetSessionConfig :: "history \<Rightarrow> string \<Rightarrow> string \<Rightarrow> error + SessionConfig option"

record Manager =
  tmuxClient :: TmuxClient
  tmuxinatorClient :: TmuxinatorClient
  configLoader :: ConfigLoader
  platform :: string

text \<open>The calls that act on the outside world; the others only ask.\<close>

fun sideEffecting :: "call \<Rightarrow> bool" where
  "sideEffecting (CallCreateSession s) = True"
| "sideEffecting (CallSwitchToSession n b) = True"
| "sideEffecting (CallAttachToSession n) = True"
| "sideEffecting CallSwitchToLastSession = True"
| "sideEffecting (CallDeleteSession n) = True"
| "sideEffecting CallReloadConfig = True"
| "sideEffecting (CallStartProject n b) = True"
| "sideEffecting c = False"

fun isCreateCall :: "call \<Rightarrow> bool" where
  "isCreateCall (CallCreateSession s) = True"
| "isCreateCall c = False"

section \<open>The engine (Manager)\<close>

text \<open>
  The fragment
  \<^verbatim>\<open>if m.tmuxinatorClient.IsInstalled() { isProject, err := m.tmuxinatorClient.ProjectExists(name); if err == nil && isProject { ... } }\<close>
  stands three times in the source with the same text: in \<^verbatim>\<open>CreateOrSwitch\<close> (lines
  122-124), \<^verbatim>\<open>SessionExists\<close> (178-180) and \<^verbatim>\<open>GetSessionInfo\<close> (237-239). The
  result is whether the inner branch is entered.
\<close>

definition tmuxinatorProjectCheck :: "Manager \<Rightarrow> string \<Rightarrow> history \<Rightarrow> bool \<times> history" where
  "tmuxinatorProjectCheck m name h =
     (if tmuxinator_IsInstalled (tmuxinatorClient m) h then
        (case tmuxinator_ProjectExists (tmuxinatorClient m) (h @ [CallIsInstalled]) name of
           Inl err \<Rightarrow> (False, h @ [CallIsInstalled, CallProjectExists name])
         | Inr isProject \<Rightarrow> (isProject, h @ [CallIsInstalled, CallProjectExists name]))
      else (False, h @ [CallIsInstalled]))"

text \<open>
  \<^verbatim>\<open>sort.Slice(sessions, less)\<close> with \<^verbatim>\<open>less(i, j) = sessions[i].Name < sessions[j].Name\<close>.
  The library promises a permutation ordered by \<open>less\<close> and no stability; the model is
  the insertion sort it runs on slices shorter than 12 elements: each element in turn
  moves left past the elements it is less than. Any sorting routine gives the same
  result when the keys are pairwise distinct.
\<close>

fun insertSorted :: "('a \<Rightarrow> 'a \<Rightarrow> bool) \<Rightarrow> 'a \<Rightarrow> 'a list \<Rightarrow> 'a list" where
  "insertSorted less' x [] = [x]"
| "insertSorted less' x (y # ys) =
     (if less' x y then x # y # ys else y # insertSorted less' x ys)"

definition sort_Slice :: "('a \<Rightarrow> 'a \<Rightarrow> bool) \<Rightarrow> 'a list \<Rightarrow> 'a list" where
  "sort_Slice less' xs = foldl (\<lambda>sorted' x. insertSorted less' x sorted') [] xs"

text \<open>
  \<^verbatim>\<open>existingNames\<close> is a \<^verbatim>\<open>map[string]bool\<close>; reading a missing key gives
  \<^verbatim>\<open>false\<close>, so it is a function into \<open>bool\<close>. Lines 57-59 of \<^verbatim>\<open>ListAll\<close>:
\<close>

fun markNames :: "(string \<Rightarrow> bool) \<Rightarrow> Session list \<Rightarrow> (string \<Rightarrow> bool)" where
  "markNames existingNames [] = existingNames"
| "markNames existingNames (sess # rest) = markNames (existingNames(Name sess := True)) rest"

text \<open>Lines 65-75: the loop over the launcher's project names.\<close>

fun addProjects ::
  "Session list \<Rightarrow> (string \<Rightarrow> bool) \<Rightarrow> string list \<Rightarrow> Session list \<times> (string \<Rightarrow> bool)" where
  "addProjects sessions existingNames [] = (sessions, existingNames)"
| "addProjects sessions existingNames (projectName # rest) =
     (if \<not> existingNames projectName then
        addProjects
          (sessions @ [Session_zero\<lparr>Name := projectName, Type := SessionTypeTmuxinator,
                                    IsActive := False\<rparr>])
          (existingNames(projectName := True)) rest
      else addProjects sessions existingNames rest)"

text \<open>Lines 82-94: the loop over the declared defaults.\<close>

fun addDefaults ::
  "Session list \<Rightarrow> (string \<Rightarrow> bool) \<Rightarrow> SessionConfig list \<Rightarrow> Session list \<times> (string \<Rightarrow> bool)" where
  "addDefaults sessions existingNames [] = (sessions, existingNames)"
| "addDefaults sessions existingNames (config # rest) =
     (if \<not> existingNames (cfg_Name config) then
        addDefaults
          (sessions @ [Session_zero\<lparr>Name := cfg_Name config, Type := SessionTypeDefault,
                                    Description := cfg_Description config,
                                    Directory := cfg_Directory config, IsActive := False\<rparr>])
          (existingNames(cfg_Name config := True)) rest
      else addDefaults sessions existingNames rest)"

text \<open>
  \<^verbatim>\<open>ListAll\<close>. The result is the pair \<^verbatim>\<open>([]Session, error)\<close> and the calls made.
\<close>

definition ListAll :: "Manager \<Rightarrow> history \<Rightarrow> (Session list \<times> error option) \<times> history" where
  "ListAll m h =
     (let sessions1 =
            (case tmux_ListSessions (tmuxClient m) h of
               Inl err \<Rightarrow> []
             | Inr tmuxSessions \<Rightarrow> [] @ tmuxSessions);
          h1 = h @ [CallListSessions];
          existingNames1 = markNames (\<lambda>name. False) sessions1;
          (sessions2, existingNames2, h2) =
            (if tmuxinator_IsInstalled (tmuxinatorClient m) h1 then
               (case tmuxinator_ListProjects (tmuxinatorClient m) (h1 @ [CallIsInstalled]) of
                  Inr projects \<Rightarrow>
                    (case addProjects sessions1 existingNames1 projects of
                       (sessions', existingNames') \<Rightarrow>
                         (sessions', existingNames', h1 @ [CallIsInstalled, CallListProjects]))
                | Inl err \<Rightarrow>
                    (sessions1, existingNames1, h1 @ [CallIsInstalled, CallListProjects]))
             else (sessions1, existingNames1, h1 @ [CallIsInstalled]));
          sessions3 =
            (case config_LoadDefaultSessions (configLoader m) h2 (platform m) of
               Inr defaultSessions \<Rightarrow> fst (addDefaults sessions2 existingNames2 defaultSessions)
             | Inl err \<Rightarrow> sessions2)
      in ((sort_Slice (\<lambda>a b. Name a < Name b) sessions3, None),
          h2 @ [CallLoadDefaultSessions (platform m)]))"

text \<open>
  \<^verbatim>\<open>createDefaultSession\<close>. The argument is a pointer, \<open>None\<close> when nil; the first
  field read panics then. \<^verbatim>\<open>&&\<close> calls \<^verbatim>\<open>IsInstalled\<close> only when the project name is
  not empty.
\<close>

definition createDefaultSession ::
  "Manager \<Rightarrow> SessionConfig option \<Rightarrow> history \<Rightarrow> error option outcome \<times> history" where
  "createDefaultSession m config' h =
     (case config' of
        None \<Rightarrow> (Panicked, h)
      | Some config \<Rightarrow>
          (if cfg_TmuxinatorProject config \<noteq> [] then
             (if tmuxinator_IsInstalled (tmuxinatorClient m) h then
                (let inTmux = tmux_IsInsideTmux (tmuxClient m) (h @ [CallIsInstalled])
                 in (Returned
                       (tmuxinator_StartProject (tmuxinatorClient m)
                          (h @ [CallIsInstalled, CallIsInsideTmux])
                          (cfg_TmuxinatorProject config) inTmux),
                     h @ [CallIsInstalled, CallIsInsideTmux,
                          CallStartProject (cfg_TmuxinatorProject config) inTmux]))
              else
                (let session = Session_zero\<lparr>Name := cfg_Name config, Type := SessionTypeTmux,
                                             Directory := cfg_Directory config\<rparr>
                 in (Returned
                       (tmux_CreateSession (tmuxClient m) (h @ [CallIsInstalled]) session),
                     h @ [CallIsInstalled, CallCreateSession session])))
           else
             (let session = Session_zero\<lparr>Name := cfg_Name config, Type := SessionTypeTmux,
                                          Directory := cfg_Directory config\<rparr>
              in (Returned (tmux_CreateSession (tmuxClient m) h session),
                  h @ [CallCreateSession session]))))"

text \<open>\<^verbatim>\<open>CreateOrSwitch\<close>.\<close>

definition CreateOrSwitch ::
  "Manager \<Rightarrow> string \<Rightarrow> history \<Rightarrow> error option outcome \<times> history" where
  "CreateOrSwitch m name h =
     (case tmux_SessionExists (tmuxClient m) h name of
        Inl err \<Rightarrow>
          (Returned (Some (Wrap ''failed to check if session exists: '' err)),
           h @ [CallSessionExists name])
      | Inr True \<Rightarrow>
          (let inTmux = tmux_IsInsideTmux (tmuxClient m) (h @ [CallSessionExists name])
           in (Returned
                 (tmux_SwitchToSession (tmuxClient m)
                    (h @ [CallSessionExists name, CallIsInsideTmux]) name inTmux),
               h @ [CallSessionExists name, CallIsInsideTmux,
                    CallSwitchToSession name inTmux]))
      | Inr False \<Rightarrow>
          (case tmuxinatorProjectCheck m name (h @ [CallSessionExists name]) of
             (True, h1) \<Rightarrow>
               (let inTmux = tmux_IsInsideTmux (tmuxClient m) h1
                in (Returned
                      (tmuxinator_StartProject (tmuxinatorClient m)
                         (h1 @ [CallIsInsideTmux]) name inTmux),
                    h1 @ [CallIsInsideTmux, CallStartProject name inTmux]))
           | (False, h1) \<Rightarrow>
               (case config_GetSessionConfig (configLoader m) h1 name (platform m) of
                  Inr config \<Rightarrow>
                    createDefaultSession m config
                      (h1 @ [CallGetSessionConfig name (platform m)])
                | Inl err \<Rightarrow>
                    (let session = Session_zero\<lparr>Name := name, Type := SessionTypeTmux\<rparr>
                     in (Returned
                           (tmux_CreateSession (tmuxClient m)
                              (h1 @ [CallGetSessionConfig name (platform m)]) session),
                         h1 @ [CallGetSessionConfig name (platform m),
                               CallCreateSession session])))))"

text \<open>\<^verbatim>\<open>SwitchToLast\<close> and \<^verbatim>\<open>DeleteSession\<close> hand the call to the multiplexer.\<close>

definition SwitchToLast :: "Manager \<Rightarrow> history \<Rightarrow> error option \<times> history" where
  "SwitchToLast m h =
     (tmux_SwitchToLastSession (tmuxClient m) h, h @ [CallSwitchToLastSession])"

definition DeleteSession :: "Manager \<Rightarrow> string \<Rightarrow> history \<Rightarrow> error option \<times> history" where
  "DeleteSession m name h =
     (tmux_DeleteSession (tmuxClient m) h name, h @ [CallDeleteSession name])"

text \<open>
  \<^verbatim>\<open>SessionExists\<close> of the engine; the result is the pair \<^verbatim>\<open>(bool, error)\<close>. The
  pointer that \<^verbatim>\<open>GetSessionConfig\<close> returns is dropped unread.
\<close>

definition SessionExists ::
  "Manager \<Rightarrow> string \<Rightarrow> history \<Rightarrow> (bool \<times> error option) \<times> history" where
  "SessionExists m name h =
     (case tmux_SessionExists (tmuxClient m) h name of
        Inl err \<Rightarrow> ((False, Some err), h @ [CallSessionExists name])
      | Inr True \<Rightarrow> ((True, None), h @ [CallSessionExists name])
      | Inr False \<Rightarrow>
          (case tmuxinatorProjectCheck m name (h @ [CallSessionExists name]) of
             (True, h1) \<Rightarrow> ((True, None), h1)
           | (False, h1) \<Rightarrow>
               (case config_GetSessionConfig (configLoader m) h1 name (platform m) of
                  Inr config \<Rightarrow> ((True, None), h1 @ [CallGetSessionConfig name (platform m)])
                | Inl err \<Rightarrow> ((False, None), h1 @ [CallGetSessionConfig name (platform m)]))))"

text \<open>
  \<^verbatim>\<open>GoToSession\<close>. The message is \<^verbatim>\<open>fmt.Errorf("session '%s' not found", name)\<close>;
  \<open>CHR 0x27\<close> is the single quote.
\<close>

definition GoToSession ::
  "Manager \<Rightarrow> string \<Rightarrow> history \<Rightarrow> error option outcome \<times> history" where
  "GoToSession m name h =
     (case SessionExists m name h of
        ((exists, Some err), h1) \<Rightarrow> (Returned (Some err), h1)
      | ((False, None), h1) \<Rightarrow>
          (Returned (Some (Err (''session '' @ [CHR 0x27] @ name @ [CHR 0x27] @ '' not found''))),
           h1)
      | ((True, None), h1) \<Rightarrow> CreateOrSwitch m name h1)"

text \<open>\<^verbatim>\<open>GetSessionInfo\<close>, lines 236-253: what follows the live-session block.\<close>

definition GetSessionInfo_rest ::
  "Manager \<Rightarrow> string \<Rightarrow> history \<Rightarrow> (string \<times> error option) outcome \<times> history" where
  "GetSessionInfo_rest m name h =
     (case tmuxinatorProjectCheck m name h of
        (True, h1) \<Rightarrow> (Returned (''tmuxinator project'', None), h1)
      | (False, h1) \<Rightarrow>
          (case config_GetSessionConfig (configLoader m) h1 name (platform m) of
             Inr None \<Rightarrow> (Panicked, h1 @ [CallGetSessionConfig name (platform m)])
           | Inr (Some config) \<Rightarrow>
               (if cfg_Description config \<noteq> [] then
                  (Returned (''default: '' @ cfg_Description config, None),
                   h1 @ [CallGetSessionConfig name (platform m)])
                else
                  (Returned (''default (not started)'', None),
                   h1 @ [CallGetSessionConfig name (platform m)]))
           | Inl err \<Rightarrow>
               (Returned (''new session'', None),
                h1 @ [CallGetSessionConfig name (platform m)])))"

text \<open>
  \<^verbatim>\<open>GetSessionInfo\<close>, lines 215-234, then the rest. The loop over the listing returns at
  the first record with the name, which is \<open>find\<close>.
\<close>

definition GetSessionInfo ::
  "Manager \<Rightarrow> string \<Rightarrow> history \<Rightarrow> (string \<times> error option) outcome \<times> history" where
  "GetSessionInfo m name h =
     (case tmux_SessionExists (tmuxClient m) h name of
        Inl err \<Rightarrow> (Returned ([], Some err), h @ [CallSessionExists name])
      | Inr False \<Rightarrow> GetSessionInfo_rest m name (h @ [CallSessionExists name])
      | Inr True \<Rightarrow>
          (case tmux_ListSessions (tmuxClient m) (h @ [CallSessionExists name]) of
             Inl err \<Rightarrow>
               (Returned ([], Some err), h @ [CallSessionExists name, CallListSessions])
           | Inr sessions \<Rightarrow>
               (case find (\<lambda>sess. Name sess = name) sessions of
                  Some sess \<Rightarrow>
                    (Returned (DisplayInfo sess, None),
                     h @ [CallSessionExists name, CallListSessions])
                | None \<Rightarrow>
                    GetSessionInfo_rest m name
                      (h @ [CallSessionExists name, CallListSessions]))))"

section \<open>The test doubles (MockTmuxClient, MockTmuxinatorClient, MockConfigLoader)\<close>

text \<open>
  The mocks of the test file, with their fields as parameters. The test file's
  \<^verbatim>\<open>MockTmuxClient\<close> has no \<^verbatim>\<open>DeleteSession\<close> and no \<^verbatim>\<open>ReloadConfig\<close>; they
  succeed here.
\<close>

definition MockTmuxClient ::
  "Session list \<Rightarrow> bool \<Rightarrow> bool \<Rightarrow> error option \<Rightarrow> error option \<Rightarrow> error option \<Rightarrow> TmuxClient" where
  "MockTmuxClient sessions sessionExists isInsideTmux createErr switchErr lastSessionErr =
     \<lparr>tmux_ListSessions = (\<lambda>h. Inr sessions),
      tmux_SessionExists =
        (\<lambda>h name. if \<exists>sess \<in> set sessions. Name sess = name then Inr True
                   else Inr sessionExists),
      tmux_CreateSession = (\<lambda>h session. createErr),
      tmux_SwitchToSession = (\<lambda>h name fromTmux. switchErr),
      tmux_AttachToSession = (\<lambda>h name. None),
      tmux_IsInsideTmux = (\<lambda>h. isInsideTmux),
      tmux_SwitchToLastSession = (\<lambda>h. lastSessionErr),
      tmux_DeleteSession = (\<lambda>h name. None),
      tmux_ReloadConfig = (\<lambda>h. None)\<rparr>"

definition MockTmuxinatorClient ::
  "string list \<Rightarrow> bool \<Rightarrow> bool \<Rightarrow> error option \<Rightarrow> TmuxinatorClient" where
  "MockTmuxinatorClient projects isInstalled projectExists startErr =
     \<lparr>tmuxinator_ListProjects = (\<lambda>h. Inr projects),
      tmuxinator_ProjectExists =
        (\<lambda>h name. if name \<in> set projects then Inr True else Inr projectExists),
      tmuxinator_StartProject = (\<lambda>h name fromTmux. startErr),
      tmuxinator_IsInstalled = (\<lambda>h. isInstalled)\<rparr>"

definition MockConfigLoader :: "SessionConfig list \<Rightarrow> error option \<Rightarrow> ConfigLoader" where
  "MockConfigLoader sessions loadErr =
     \<lparr>config_LoadDefaultSessions =
        (\<lambda>h platform. case loadErr of Some e \<Rightarrow> Inl e | None \<Rightarrow> Inr sessions),
      config_GetSessionConfig =
        (\<lambda>h name platform.
           case find (\<lambda>sess. cfg_Name sess = name) sessions of
             Some sess \<Rightarrow> Inr (Some sess)
           | None \<Rightarrow> Inl (Err ''session not found''))\<rparr>"

definition createTestManager ::
  "Session list \<Rightarrow> string list \<Rightarrow> SessionConfig list \<Rightarrow> Manager" where
  "createTestManager tmuxSessions tmuxinatorProjects defaultSessions =
     \<lparr>tmuxClient = MockTmuxClient tmuxSessions False False None None None,
      tmuxinatorClient =
        MockTmuxinatorClient tmuxinatorProjects (length tmuxinatorProjects > 0) False None,
      configLoader = MockConfigLoader defaultSessions None,
      platform = ''macos''\<rparr>"

text \<open>
  Further port behaviours: a multiplexer whose existence check fails, a launcher whose
  existence check fails, and a multiplexer that confirms every name while its listing
  is empty (the mock with \<^verbatim>\<open>sessionExists: true\<close>).
\<close>

definition failingTmuxClient :: TmuxClient where
  "failingTmuxClient =
     (MockTmuxClient [] False False None None None)
       \<lparr>tmux_SessionExists := (\<lambda>h name. Inl (Err ''no server running''))\<rparr>"

definition failingTmuxinatorClient :: TmuxinatorClient where
  "failingTmuxinatorClient =
     (MockTmuxinatorClient [] True False None)
       \<lparr>tmuxinator_ProjectExists := (\<lambda>h name. Inl (Err ''tmuxinator list failed''))\<rparr>"

definition staleTmuxClient :: TmuxClient where
  "staleTmuxClient = MockTmuxClient [] True False None None None"

definition staleManager :: "string list \<Rightarrow> SessionConfig list \<Rightarrow> Manager" where
  "staleManager tmuxinatorProjects defaultSessions =
     (createTestManager [] tmuxinatorProjects defaultSessions)\<lparr>tmuxClient := staleTmuxClient\<rparr>"

text \<open>
  The records of the test tables: a live session as the real client builds it (apart
  from the time stamp), and a configuration entry.
\<close>

definition liveSession :: "string \<Rightarrow> int \<Rightarrow> Session" where
  "liveSession name w =
     Session_zero\<lparr>Name := name, Type := SessionTypeTmux, WindowCount := w, IsActive := True\<rparr>"

definition defaultEntry :: "string \<Rightarrow> string \<Rightarrow> string \<Rightarrow> string \<Rightarrow> SessionConfig" where
  "defaultEntry name description directory project =
     \<lparr>cfg_Name = name, cfg_Description = description, cfg_Directory = directory,
      cfg_TmuxinatorProject = project\<rparr>"

section \<open>Notions used to state the properties\<close>

text \<open>The calls a method added to the history \<open>h\<close> it started from.\<close>

definition newCalls :: "history \<Rightarrow> history \<Rightarrow> call list" where
  "newCalls h h' = drop (length h) h'"

text \<open>
  What each source offers to one run of \<^verbatim>\<open>ListAll\<close> started at history \<open>h\<close>: the
  answer of the port at the moment \<^verbatim>\<open>ListAll\<close> asks, and nothing when the port
  returns an error or the launcher is not installed.
\<close>

definition liveListed :: "Manager \<Rightarrow> history \<Rightarrow> Session list" where
  "liveListed m h =
     (case tmux_ListSessions (tmuxClient m) h of
        Inl err \<Rightarrow> []
      | Inr tmuxSessions \<Rightarrow> tmuxSessions)"

definition projectsListed :: "Manager \<Rightarrow> history \<Rightarrow> string list" where
  "projectsListed m h =
     (if tmuxinator_IsInstalled (tmuxinatorClient m) (h @ [CallListSessions]) then
        (case tmuxinator_ListProjects (tmuxinatorClient m)
                (h @ [CallListSessions, CallIsInstalled]) of
           Inl err \<Rightarrow> []
         | Inr projects \<Rightarrow> projects)
      else [])"

definition defaultsListed :: "Manager \<Rightarrow> history \<Rightarrow> SessionConfig list" where
  "defaultsListed m h =
     (case config_LoadDefaultSessions (configLoader m)
             (if tmuxinator_IsInstalled (tmuxinatorClient m) (h @ [CallListSessions])
              then h @ [CallListSessions, CallIsInstalled, CallListProjects]
              else h @ [CallListSessions, CallIsInstalled])
             (platform m) of
        Inl err \<Rightarrow> []
      | Inr defaultSessions \<Rightarrow> defaultSessions)"

text \<open>The records \<^verbatim>\<open>ListAll\<close> builds for a project name and for a declared default.\<close>

definition projectRecord :: "string \<Rightarrow> Session" where
  "projectRecord projectName =
     Session_zero\<lparr>Name := projectName, Type := SessionTypeTmuxinator, IsActive := False\<rparr>"

definition defaultRecord :: "SessionConfig \<Rightarrow> Session" where
  "defaultRecord config =
     Session_zero\<lparr>Name := cfg_Name config, Type := SessionTypeDefault,
                  Description := cfg_Description config,
                  Directory := cfg_Directory config, IsActive := False\<rparr>"

text \<open>The loop invariant of \<^verbatim>\<open>ListAll\<close>: the name map marks the names of the records.\<close>

definition namesMarked :: "(string \<Rightarrow> bool) \<Rightarrow> Session list \<Rightarrow> bool" where
  "namesMarked e ss \<longleftrightarrow> (\<forall>n. e n \<longleftrightarrow> n \<in> Name ` set ss)"

text \<open>The records of \<^verbatim>\<open>ListAll\<close> before the sort.\<close>

definition mergedSessions :: "Manager \<Rightarrow> history \<Rightarrow> Session list" where
  "mergedSessions m h =
     fst (addDefaults
          (fst (addProjects (liveListed m h) (markNames (\<lambda>name. False) (liveListed m h))
                  (projectsListed m h)))
          (snd (addProjects (liveListed m h) (markNames (\<lambda>name. False) (liveListed m h))
                  (projectsListed m h)))
          (defaultsListed m h))"

section \<open>Evaluation of the test doubles\<close>

lemmas mock_defs =
  createTestManager_def MockTmuxClient_def MockTmuxinatorClient_def MockConfigLoader_def

lemmas fixture_defs =
  liveSession_def defaultEntry_def failingTmuxClient_def failingTmuxinatorClient_def
  staleTmuxClient_def staleManager_def Session_zero_def

lemmas eval_defs =
  mock_defs fixture_defs tmuxinatorProjectCheck_def newCalls_def SessionTypeTmux_def

section \<open>The sort\<close>

lemma set_insertSorted: "set (insertSorted lt x xs) = insert x (set xs)"
  by (induction xs) auto

lemma sorted_insertSorted:
  "sorted (map f xs) \<Longrightarrow> sorted (map f (insertSorted (\<lambda>a b. f a < f b) x xs))"
  by (induction xs) (auto simp: set_insertSorted)

lemma sorted_foldl_insertSorted:
  "sorted (map f acc) \<Longrightarrow>
   sorted (map f (foldl (\<lambda>sorted' x. insertSorted (\<lambda>a b. f a < f b) x sorted') acc xs))"
  by (induction xs arbitrary: acc) (auto simp: sorted_insertSorted)

lemma sorted_sort_Slice: "sorted (map f (sort_Slice (\<lambda>a b. f a < f b) xs))"
  by (simp add: sort_Slice_def sorted_foldl_insertSorted)

lemma distinct_insertSorted:
  "distinct (map f (insertSorted lt x xs)) \<longleftrightarrow> f x \<notin> f ` set xs \<and> distinct (map f xs)"
  by (induction xs) (auto simp: set_insertSorted)

lemma set_foldl_insertSorted:
  "set (foldl (\<lambda>sorted' x. insertSorted lt x sorted') acc xs) = set acc \<union> set xs"
  by (induction xs arbitrary: acc) (auto simp: set_insertSorted)

lemma distinct_foldl_insertSorted:
  "distinct (map f (foldl (\<lambda>sorted' x. insertSorted lt x sorted') acc xs)) \<longleftrightarrow>
   distinct (map f (acc @ xs))"
  by (induction xs arbitrary: acc) (auto simp: distinct_insertSorted set_insertSorted)

lemma set_sort_Slice: "set (sort_Slice lt xs) = set xs"
  by (simp add: sort_Slice_def set_foldl_insertSorted)

lemma distinct_sort_Slice: "distinct (map f (sort_Slice lt xs)) \<longleftrightarrow> distinct (map f xs)"
  by (simp add: sort_Slice_def distinct_foldl_insertSorted)

section \<open>The merge of ListAll\<close>

lemma markNames_eq: "markNames e ss = (\<lambda>n. e n \<or> n \<in> Name ` set ss)"
  by (induction ss arbitrary: e) auto

lemma markNames_marked: "namesMarked (markNames (\<lambda>name. False) ss) ss"
  by (simp add: markNames_eq namesMarked_def)

lemma ListAll_sessions:
  "fst (fst (ListAll m h)) =
     sort_Slice (\<lambda>a b. Name a < Name b)
       (fst (addDefaults
          (fst (addProjects (liveListed m h) (markNames (\<lambda>name. False) (liveListed m h))
                  (projectsListed m h)))
          (snd (addProjects (liveListed m h) (markNames (\<lambda>name. False) (liveListed m h))
                  (projectsListed m h)))
          (defaultsListed m h)))"
  by (simp add: ListAll_def Let_def liveListed_def projectsListed_def defaultsListed_def
      split: prod.splits sum.splits)

lemma ListAll_merged:
  "fst (fst (ListAll m h)) = sort_Slice (\<lambda>a b. Name a < Name b) (mergedSessions m h)"
  by (simp add: ListAll_sessions mergedSessions_def)

text \<open>
  C9. Whatever the three ports answer, errors included, the error result of
  \<^verbatim>\<open>ListAll\<close> is nil.
\<close>

theorem ListAll_error_nil: "snd (fst (ListAll m h)) = None"
  by (simp add: ListAll_def Let_def split: prod.splits)

text \<open>
  C7. Whatever the three ports answer, the records \<^verbatim>\<open>ListAll\<close> returns are in
  ascending order of their names; the order on strings is the lexicographic order on
  their bytes.
\<close>

theorem ListAll_sorted: "sorted (map Name (fst (fst (ListAll m h))))"
  by (simp add: ListAll_def Let_def sorted_sort_Slice split: prod.splits)

lemma addProjects_marked:
  "namesMarked e ss \<Longrightarrow> namesMarked (snd (addProjects ss e ps)) (fst (addProjects ss e ps))"
  by (induction ps arbitrary: ss e) (auto simp: namesMarked_def projectRecord_def)

lemma addProjects_distinct:
  "namesMarked e ss \<Longrightarrow> distinct (map Name ss) \<Longrightarrow>
   distinct (map Name (fst (addProjects ss e ps)))"
proof (induction ps arbitrary: ss e)
  case Nil
  then show ?case by simp
next
  case (Cons p ps)
  show ?case
  proof (cases "e p")
    case True
    with Cons show ?thesis by simp
  next
    case False
    let ?ss = "ss @ [Session_zero\<lparr>Name := p, Type := SessionTypeTmuxinator, IsActive := False\<rparr>]"
    from Cons.prems False have "namesMarked (e(p := True)) ?ss" "distinct (map Name ?ss)"
      by (auto simp: namesMarked_def)
    then have "distinct (map Name (fst (addProjects ?ss (e(p := True)) ps)))"
      by (rule Cons.IH)
    with False show ?thesis by simp
  qed
qed

lemma addProjects_names:
  "namesMarked e ss \<Longrightarrow>
   Name ` set (fst (addProjects ss e ps)) = Name ` set ss \<union> set ps"
proof (induction ps arbitrary: ss e)
  case Nil
  then show ?case by simp
next
  case (Cons p ps)
  show ?case
  proof (cases "e p")
    case True
    with Cons.prems have "p \<in> Name ` set ss" by (simp add: namesMarked_def)
    with Cons True show ?thesis by auto
  next
    case False
    let ?ss = "ss @ [Session_zero\<lparr>Name := p, Type := SessionTypeTmuxinator, IsActive := False\<rparr>]"
    from Cons.prems False have "namesMarked (e(p := True)) ?ss"
      by (auto simp: namesMarked_def)
    then have "Name ` set (fst (addProjects ?ss (e(p := True)) ps)) = Name ` set ?ss \<union> set ps"
      by (rule Cons.IH)
    with False show ?thesis by simp
  qed
qed

lemma addProjects_members:
  "r \<in> set (fst (addProjects ss e ps)) \<Longrightarrow>
   r \<in> set ss \<or> (\<not> e (Name r) \<and> Name r \<in> set ps \<and> r = projectRecord (Name r))"
proof (induction ps arbitrary: ss e)
  case Nil
  then show ?case by simp
next
  case (Cons p ps)
  show ?case
  proof (cases "e p")
    case True
    with Cons.prems have "r \<in> set (fst (addProjects ss e ps))" by simp
    then have "r \<in> set ss \<or> (\<not> e (Name r) \<and> Name r \<in> set ps \<and> r = projectRecord (Name r))"
      by (rule Cons.IH)
    then show ?thesis by auto
  next
    case False
    let ?ss = "ss @ [Session_zero\<lparr>Name := p, Type := SessionTypeTmuxinator, IsActive := False\<rparr>]"
    from Cons.prems False have "r \<in> set (fst (addProjects ?ss (e(p := True)) ps))" by simp
    then have "r \<in> set ?ss \<or>
        (\<not> (e(p := True)) (Name r) \<and> Name r \<in> set ps \<and> r = projectRecord (Name r))"
      by (rule Cons.IH)
    with False show ?thesis by (auto simp: projectRecord_def split: if_splits)
  qed
qed

lemma addDefaults_distinct:
  "namesMarked e ss \<Longrightarrow> distinct (map Name ss) \<Longrightarrow>
   distinct (map Name (fst (addDefaults ss e ds)))"
proof (induction ds arbitrary: ss e)
  case Nil
  then show ?case by simp
next
  case (Cons d ds)
  show ?case
  proof (cases "e (cfg_Name d)")
    case True
    with Cons show ?thesis by simp
  next
    case False
    let ?ss = "ss @ [defaultRecord d]"
    from Cons.prems False have "namesMarked (e(cfg_Name d := True)) ?ss" "distinct (map Name ?ss)"
      by (auto simp: namesMarked_def defaultRecord_def)
    then have "distinct (map Name (fst (addDefaults ?ss (e(cfg_Name d := True)) ds)))"
      by (rule Cons.IH)
    with False show ?thesis by (simp add: defaultRecord_def)
  qed
qed

lemma addDefaults_names:
  "namesMarked e ss \<Longrightarrow>
   Name ` set (fst (addDefaults ss e ds)) = Name ` set ss \<union> cfg_Name ` set ds"
proof (induction ds arbitrary: ss e)
  case Nil
  then show ?case by simp
next
  case (Cons d ds)
  show ?case
  proof (cases "e (cfg_Name d)")
    case True
    with Cons.prems have "cfg_Name d \<in> Name ` set ss" by (simp add: namesMarked_def)
    with Cons True show ?thesis by auto
  next
    case False
    let ?ss = "ss @ [defaultRecord d]"
    from Cons.prems False have "namesMarked (e(cfg_Name d := True)) ?ss"
      by (auto simp: namesMarked_def defaultRecord_def)
    then have "Name ` set (fst (addDefaults ?ss (e(cfg_Name d := True)) ds)) =
        Name ` set ?ss \<union> cfg_Name ` set ds"
      by (rule Cons.IH)
    with False show ?thesis by (simp add: defaultRecord_def)
  qed
qed

lemma addDefaults_members:
  "namesMarked e ss \<Longrightarrow> r \<in> set (fst (addDefaults ss e ds)) \<Longrightarrow>
   r \<in> set ss \<or>
   (Name r \<notin> Name ` set ss \<and>
    (\<exists>c. find (\<lambda>c. cfg_Name c = Name r) ds = Some c \<and> r = defaultRecord c))"
proof (induction ds arbitrary: ss e)
  case Nil
  then show ?case by simp
next
  case (Cons d ds)
  show ?case
  proof (cases "e (cfg_Name d)")
    case True
    with Cons.prems have in_ss: "cfg_Name d \<in> Name ` set ss" by (simp add: namesMarked_def)
    from Cons.prems True have "r \<in> set (fst (addDefaults ss e ds))" by simp
    with Cons.prems(1) have "r \<in> set ss \<or>
        (Name r \<notin> Name ` set ss \<and>
         (\<exists>c. find (\<lambda>c. cfg_Name c = Name r) ds = Some c \<and> r = defaultRecord c))"
      by (rule Cons.IH)
    with in_ss show ?thesis by auto
  next
    case False
    let ?ss = "ss @ [defaultRecord d]"
    from Cons.prems False have marked: "namesMarked (e(cfg_Name d := True)) ?ss"
      by (auto simp: namesMarked_def defaultRecord_def)
    from Cons.prems False have notin: "cfg_Name d \<notin> Name ` set ss"
      by (simp add: namesMarked_def)
    from Cons.prems False
    have "r \<in> set (fst (addDefaults ?ss (e(cfg_Name d := True)) ds))"
      by (simp add: defaultRecord_def)
    with marked have "r \<in> set ?ss \<or>
        (Name r \<notin> Name ` set ?ss \<and>
         (\<exists>c. find (\<lambda>c. cfg_Name c = Name r) ds = Some c \<and> r = defaultRecord c))"
      by (rule Cons.IH)
    then consider "r \<in> set ss" | "r = defaultRecord d"
      | "Name r \<notin> Name ` set ?ss"
        "\<exists>c. find (\<lambda>c. cfg_Name c = Name r) ds = Some c \<and> r = defaultRecord c"
      by auto
    then show ?thesis
    proof cases
      case 1
      then show ?thesis by simp
    next
      case 2
      with notin show ?thesis by (simp add: defaultRecord_def)
    next
      case 3
      then have "Name r \<noteq> cfg_Name d" "Name r \<notin> Name ` set ss"
        by (auto simp: defaultRecord_def)
      with 3 show ?thesis by simp
    qed
  qed
qed

lemma filter_distinct_key:
  "distinct (map f xs) \<Longrightarrow> x \<in> set xs \<Longrightarrow> filter (\<lambda>y. f y = f x) xs = [x]"
proof (induction xs)
  case Nil
  then show ?case by simp
next
  case (Cons a xs)
  show ?case
  proof (cases "a = x")
    case True
    with Cons.prems have "f x \<notin> f ` set xs" by simp
    then have "\<forall>y \<in> set xs. f y \<noteq> f x" by (metis image_eqI)
    then have "filter (\<lambda>y. f y = f x) xs = []" by (simp add: filter_empty_conv)
    with True show ?thesis by simp
  next
    case False
    with Cons.prems have "x \<in> set xs" "f a \<noteq> f x" by auto
    with Cons show ?thesis by simp
  qed
qed

lemma mergedSessions_distinct:
  "distinct (map Name (liveListed m h)) \<Longrightarrow> distinct (map Name (mergedSessions m h))"
  unfolding mergedSessions_def
  by (intro addDefaults_distinct addProjects_distinct addProjects_marked markNames_marked)

lemma mergedSessions_names:
  "Name ` set (mergedSessions m h) =
     Name ` set (liveListed m h) \<union> set (projectsListed m h) \<union> cfg_Name ` set (defaultsListed m h)"
  unfolding mergedSessions_def
  by (simp add: addDefaults_names addProjects_names addProjects_marked markNames_marked)

lemma mergedSessions_members:
  assumes "r \<in> set (mergedSessions m h)"
  shows "if Name r \<in> Name ` set (liveListed m h) then r \<in> set (liveListed m h)
         else if Name r \<in> set (projectsListed m h) then r = projectRecord (Name r)
         else (\<exists>c. find (\<lambda>c. cfg_Name c = Name r) (defaultsListed m h) = Some c \<and>
                    r = defaultRecord c)"
proof -
  let ?live = "liveListed m h"
  let ?e1 = "markNames (\<lambda>name. False) ?live"
  let ?ss2 = "fst (addProjects ?live ?e1 (projectsListed m h))"
  let ?e2 = "snd (addProjects ?live ?e1 (projectsListed m h))"
  have marked2: "namesMarked ?e2 ?ss2"
    by (intro addProjects_marked markNames_marked)
  have names2: "Name ` set ?ss2 = Name ` set ?live \<union> set (projectsListed m h)"
    by (simp add: addProjects_names markNames_marked)
  have step2: "s \<in> set ?live \<or>
      (Name s \<notin> Name ` set ?live \<and> Name s \<in> set (projectsListed m h) \<and>
       s = projectRecord (Name s))" if "s \<in> set ?ss2" for s
    using addProjects_members [OF that] by (simp add: markNames_eq)
  from assms marked2 have "r \<in> set ?ss2 \<or>
      (Name r \<notin> Name ` set ?ss2 \<and>
       (\<exists>c. find (\<lambda>c. cfg_Name c = Name r) (defaultsListed m h) = Some c \<and>
            r = defaultRecord c))"
    unfolding mergedSessions_def by (intro addDefaults_members)
  then show ?thesis
  proof
    assume "r \<in> set ?ss2"
    from step2 [OF this] show ?thesis by auto
  next
    assume "Name r \<notin> Name ` set ?ss2 \<and>
       (\<exists>c. find (\<lambda>c. cfg_Name c = Name r) (defaultsListed m h) = Some c \<and>
            r = defaultRecord c)"
    with names2 show ?thesis by auto
  qed
qed

text \<open>
  C1, as the code has it. \<^verbatim>\<open>ListAll\<close> appends the live listing as the multiplexer
  returns it and checks only the later sources against the names already present. So:
  provided the names of the live listing are pairwise distinct, the names of the result
  are pairwise distinct; the names of the result are the names offered by the three
  sources; a record whose name is in the live listing is a record of the live listing, a
  record whose name is offered by the launcher and not live is the launcher record of
  that name, and any other record is the default record of the first configuration entry
  with its name. In particular a name that is both live and a launcher project appears
  exactly once, as the record the multiplexer listed, which has type tmux when the
  multiplexer gives that type to the records it lists.
\<close>

theorem ListAll_precedence:
  assumes "distinct (map Name (liveListed m h))"
  shows "distinct (map Name (fst (fst (ListAll m h)))) \<and>
    Name ` set (fst (fst (ListAll m h))) =
      Name ` set (liveListed m h) \<union> set (projectsListed m h) \<union>
      cfg_Name ` set (defaultsListed m h) \<and>
    (\<forall>r \<in> set (fst (fst (ListAll m h))).
       if Name r \<in> Name ` set (liveListed m h) then r \<in> set (liveListed m h)
       else if Name r \<in> set (projectsListed m h) then r = projectRecord (Name r)
       else (\<exists>c. find (\<lambda>c. cfg_Name c = Name r) (defaultsListed m h) = Some c \<and>
                  r = defaultRecord c)) \<and>
    (\<forall>n \<in> Name ` set (liveListed m h) \<inter> set (projectsListed m h).
       \<exists>r \<in> set (liveListed m h).
         filter (\<lambda>s. Name s = n) (fst (fst (ListAll m h))) = [r] \<and>
         ((\<forall>s \<in> set (liveListed m h). Type s = SessionTypeTmux) \<longrightarrow>
            Type r = SessionTypeTmux))"
proof -
  let ?out = "fst (fst (ListAll m h))"
  have set_out: "set ?out = set (mergedSessions m h)"
    by (simp add: ListAll_merged set_sort_Slice)
  have d: "distinct (map Name ?out)"
    using assms by (simp add: ListAll_merged distinct_sort_Slice mergedSessions_distinct)
  have names: "Name ` set ?out =
      Name ` set (liveListed m h) \<union> set (projectsListed m h) \<union>
      cfg_Name ` set (defaultsListed m h)"
    by (simp add: set_out mergedSessions_names)
  have members: "\<forall>r \<in> set ?out.
       if Name r \<in> Name ` set (liveListed m h) then r \<in> set (liveListed m h)
       else if Name r \<in> set (projectsListed m h) then r = projectRecord (Name r)
       else (\<exists>c. find (\<lambda>c. cfg_Name c = Name r) (defaultsListed m h) = Some c \<and>
                  r = defaultRecord c)"
    using mergedSessions_members by (simp add: set_out)
  have once: "\<exists>r \<in> set (liveListed m h).
         filter (\<lambda>s. Name s = n) ?out = [r] \<and>
         ((\<forall>s \<in> set (liveListed m h). Type s = SessionTypeTmux) \<longrightarrow>
            Type r = SessionTypeTmux)"
    if n: "n \<in> Name ` set (liveListed m h) \<inter> set (projectsListed m h)" for n
  proof -
    from n names have "n \<in> Name ` set ?out" by simp
    then obtain r where r: "r \<in> set ?out" "Name r = n" by auto
    with members n have live: "r \<in> set (liveListed m h)" by auto
    from filter_distinct_key [OF d r(1)] r(2)
    have "filter (\<lambda>s. Name s = n) ?out = [r]" by simp
    with live show ?thesis by auto
  qed
  from d names members once show ?thesis by blast
qed

text \<open>
  The example of the specification: live A (2 windows) and B (1 window), launcher
  projects A and C, defaults D and E.
\<close>

theorem ListAll_precedence_witness:
  "distinct (map Name (liveListed
      (createTestManager [liveSession ''A'' 2, liveSession ''B'' 1] [''A'', ''C'']
         [defaultEntry ''D'' [] ''/d'' [], defaultEntry ''E'' [] ''/e'' []]) [])) \<and>
   distinct (map Name (fst (fst (ListAll
      (createTestManager [liveSession ''A'' 2, liveSession ''B'' 1] [''A'', ''C'']
         [defaultEntry ''D'' [] ''/d'' [], defaultEntry ''E'' [] ''/e'' []]) [])))) \<and>
   fst (fst (ListAll
      (createTestManager [liveSession ''A'' 2, liveSession ''B'' 1] [''A'', ''C'']
         [defaultEntry ''D'' [] ''/d'' [], defaultEntry ''E'' [] ''/e'' []]) [])) =
     [liveSession ''A'' 2, liveSession ''B'' 1, projectRecord ''C'',
      defaultRecord (defaultEntry ''D'' [] ''/d'' []),
      defaultRecord (defaultEntry ''E'' [] ''/e'' [])]"
proof -
  let ?m = "createTestManager [liveSession ''A'' 2, liveSession ''B'' 1] [''A'', ''C'']
         [defaultEntry ''D'' [] ''/d'' [], defaultEntry ''E'' [] ''/e'' []]"
  have live: "distinct (map Name (liveListed ?m []))"
    by (simp add: liveListed_def mock_defs fixture_defs)
  from ListAll_precedence [OF live]
  have "distinct (map Name (fst (fst (ListAll ?m []))))"
    by (rule conjunct1)
  moreover have "fst (fst (ListAll ?m [])) =
     [liveSession ''A'' 2, liveSession ''B'' 1, projectRecord ''C'',
      defaultRecord (defaultEntry ''D'' [] ''/d'' []),
      defaultRecord (defaultEntry ''E'' [] ''/e'' [])]"
    by (simp add: ListAll_def mock_defs fixture_defs sort_Slice_def projectRecord_def
        defaultRecord_def)
  ultimately show ?thesis using live by simp
qed

text \<open>
  Without the proviso the property fails. A live listing that names A twice comes back
  with both records, although A is a launcher project as well; and a live record that
  the multiplexer left without a type (as in \<^verbatim>\<open>[]Session{{Name: "test"}}\<close>)
  survives as it is, not with type tmux.
\<close>

theorem ListAll_distinct_counterexample:
  "fst (fst (ListAll (createTestManager [liveSession ''A'' 2, liveSession ''A'' 1] [''A''] []) []))
     = [liveSession ''A'' 2, liveSession ''A'' 1] \<and>
   \<not> distinct (map Name (fst (fst (ListAll
        (createTestManager [liveSession ''A'' 2, liveSession ''A'' 1] [''A''] []) [])))) \<and>
   fst (fst (ListAll (createTestManager [Session_zero\<lparr>Name := ''test''\<rparr>] [''test''] []) []))
     = [Session_zero\<lparr>Name := ''test''\<rparr>] \<and>
   Type (Session_zero\<lparr>Name := ''test''\<rparr>) \<noteq> SessionTypeTmux"
  by (simp add: ListAll_def mock_defs fixture_defs sort_Slice_def SessionTypeTmux_def)

section \<open>CreateOrSwitch\<close>

lemma newCalls_append [simp]: "newCalls h (h @ cs) = cs"
  by (simp add: newCalls_def)

lemma tmuxinatorProjectCheck_calls:
  "tmuxinatorProjectCheck m name h = (b, h1) \<Longrightarrow>
   \<exists>cs. h1 = h @ cs \<and> filter sideEffecting cs = [] \<and>
         set cs \<subseteq> {CallIsInstalled, CallProjectExists name}"
  by (auto simp: tmuxinatorProjectCheck_def split: if_splits sum.splits)

lemma tmuxinatorProjectCheck_iff:
  "fst (tmuxinatorProjectCheck m name h) \<longleftrightarrow>
     tmuxinator_IsInstalled (tmuxinatorClient m) h \<and>
     tmuxinator_ProjectExists (tmuxinatorClient m) (h @ [CallIsInstalled]) name = Inr True"
  by (simp add: tmuxinatorProjectCheck_def split: sum.splits)

text \<open>
  C4. When the multiplexer confirms \<open>name\<close> as live, \<^verbatim>\<open>CreateOrSwitch\<close> makes three
  calls: the existence check, \<^verbatim>\<open>IsInsideTmux\<close>, and \<^verbatim>\<open>SwitchToSession\<close> with the
  name and that answer; it returns what the switch returns and makes no creation call.
  When the existence check returns an error, \<^verbatim>\<open>CreateOrSwitch\<close> returns that error
  wrapped with the text \<open>failed to check if session exists: \<close> and has made no other
  call, so no side-effecting one.
\<close>

theorem CreateOrSwitch_live:
  "(tmux_SessionExists (tmuxClient m) h name = Inr True \<longrightarrow>
      newCalls h (snd (CreateOrSwitch m name h)) =
        [CallSessionExists name, CallIsInsideTmux,
         CallSwitchToSession name
           (tmux_IsInsideTmux (tmuxClient m) (h @ [CallSessionExists name]))] \<and>
      fst (CreateOrSwitch m name h) =
        Returned (tmux_SwitchToSession (tmuxClient m)
                    (h @ [CallSessionExists name, CallIsInsideTmux]) name
                    (tmux_IsInsideTmux (tmuxClient m) (h @ [CallSessionExists name]))) \<and>
      \<not> list_ex isCreateCall (newCalls h (snd (CreateOrSwitch m name h)))) \<and>
   (tmux_SessionExists (tmuxClient m) h name = Inl err \<longrightarrow>
      fst (CreateOrSwitch m name h) =
        Returned (Some (Wrap ''failed to check if session exists: '' err)) \<and>
      newCalls h (snd (CreateOrSwitch m name h)) = [CallSessionExists name] \<and>
      \<not> list_ex sideEffecting (newCalls h (snd (CreateOrSwitch m name h))))"
  by (simp add: CreateOrSwitch_def Let_def)

theorem CreateOrSwitch_live_witness:
  "CreateOrSwitch (createTestManager [liveSession ''existing'' 0] [] []) ''existing'' [] =
     (Returned None,
      [CallSessionExists ''existing'', CallIsInsideTmux,
       CallSwitchToSession ''existing'' False]) \<and>
   CreateOrSwitch ((createTestManager [] [] [])\<lparr>tmuxClient := failingTmuxClient\<rparr>) ''x'' [] =
     (Returned (Some (Wrap ''failed to check if session exists: '' (Err ''no server running''))),
      [CallSessionExists ''x''])"
proof -
  let ?m1 = "createTestManager [liveSession ''existing'' 0] [] []"
  let ?m2 = "(createTestManager [] [] [])\<lparr>tmuxClient := failingTmuxClient\<rparr>"
  have live: "tmux_SessionExists (tmuxClient ?m1) [] ''existing'' = Inr True"
    by (simp add: eval_defs)
  have failing: "tmux_SessionExists (tmuxClient ?m2) [] ''x'' = Inl (Err ''no server running'')"
    by (simp add: eval_defs)
  from CreateOrSwitch_live [of ?m1 "[]" "''existing''"] live
       CreateOrSwitch_live [of ?m2 "[]" "''x''" "Err ''no server running''"] failing
  show ?thesis
    by (simp add: eval_defs prod_eq_iff)
qed

text \<open>
  C5. When \<open>name\<close> is not live, the launcher check is negative (the launcher is not
  installed, or its existence check answers false or fails) and the configuration lookup
  returns an error, the only side-effecting call of \<^verbatim>\<open>CreateOrSwitch\<close> is one
  \<^verbatim>\<open>CreateSession\<close> with a record that carries the name, the type tmux and an empty
  directory; its result is returned.
\<close>

theorem CreateOrSwitch_fallback:
  assumes "tmux_SessionExists (tmuxClient m) h name = Inr False"
    and "tmuxinatorProjectCheck m name (h @ [CallSessionExists name]) = (False, h1)"
    and "config_GetSessionConfig (configLoader m) h1 name (platform m) = Inl err"
  shows "filter sideEffecting (newCalls h (snd (CreateOrSwitch m name h))) =
           [CallCreateSession (Session_zero\<lparr>Name := name, Type := SessionTypeTmux\<rparr>)] \<and>
         Directory (Session_zero\<lparr>Name := name, Type := SessionTypeTmux\<rparr>) = [] \<and>
         fst (CreateOrSwitch m name h) =
           Returned (tmux_CreateSession (tmuxClient m)
                       (h1 @ [CallGetSessionConfig name (platform m)])
                       (Session_zero\<lparr>Name := name, Type := SessionTypeTmux\<rparr>))"
proof -
  from tmuxinatorProjectCheck_calls [OF assms(2)]
  obtain cs where cs: "h1 = h @ [CallSessionExists name] @ cs" "filter sideEffecting cs = []"
    by auto
  with assms show ?thesis
    by (simp add: CreateOrSwitch_def Let_def Session_zero_def)
qed

theorem CreateOrSwitch_fallback_witness:
  "CreateOrSwitch (createTestManager [] [] []) ''Y'' [] =
     (Returned None,
      [CallSessionExists ''Y'', CallIsInstalled, CallGetSessionConfig ''Y'' ''macos'',
       CallCreateSession (Session_zero\<lparr>Name := ''Y'', Type := SessionTypeTmux\<rparr>)])"
proof -
  let ?m = "createTestManager [] [] []"
  have a: "tmux_SessionExists (tmuxClient ?m) [] ''Y'' = Inr False"
    by (simp add: eval_defs)
  have b: "tmuxinatorProjectCheck ?m ''Y'' ([] @ [CallSessionExists ''Y'']) =
      (False, [CallSessionExists ''Y'', CallIsInstalled])"
    by (simp add: eval_defs)
  have c: "config_GetSessionConfig (configLoader ?m) [CallSessionExists ''Y'', CallIsInstalled]
      ''Y'' (platform ?m) = Inl (Err ''session not found'')"
    by (simp add: eval_defs)
  from CreateOrSwitch_fallback [OF a b c] show ?thesis
    by (simp add: eval_defs prod_eq_iff CreateOrSwitch_def)
qed

text \<open>
  C2, as the code has it. When \<^verbatim>\<open>CreateOrSwitch\<close> reaches the configuration lookup
  and it returns an entry: if the entry names a launcher project and the launcher reports
  itself installed, the only side-effecting call is \<^verbatim>\<open>StartProject\<close> with that project
  name, and its result is returned; if the entry names no launcher project, or the
  launcher is not installed, the only side-effecting call is \<^verbatim>\<open>CreateSession\<close> with
  the name and the directory of the entry. On the launcher path the directory is
  ignored: \<^verbatim>\<open>createDefaultSession\<close> does the same for the entry with any other
  directory.
\<close>

theorem CreateOrSwitch_default:
  assumes "tmux_SessionExists (tmuxClient m) h name = Inr False"
    and "tmuxinatorProjectCheck m name (h @ [CallSessionExists name]) = (False, h1)"
    and "config_GetSessionConfig (configLoader m) h1 name (platform m) = Inr (Some config)"
  shows
   "(cfg_TmuxinatorProject config \<noteq> [] \<and>
     tmuxinator_IsInstalled (tmuxinatorClient m) (h1 @ [CallGetSessionConfig name (platform m)]) \<longrightarrow>
       filter sideEffecting (newCalls h (snd (CreateOrSwitch m name h))) =
         [CallStartProject (cfg_TmuxinatorProject config)
            (tmux_IsInsideTmux (tmuxClient m)
               (h1 @ [CallGetSessionConfig name (platform m), CallIsInstalled]))] \<and>
       fst (CreateOrSwitch m name h) =
         Returned (tmuxinator_StartProject (tmuxinatorClient m)
           (h1 @ [CallGetSessionConfig name (platform m), CallIsInstalled, CallIsInsideTmux])
           (cfg_TmuxinatorProject config)
           (tmux_IsInsideTmux (tmuxClient m)
              (h1 @ [CallGetSessionConfig name (platform m), CallIsInstalled])))) \<and>
    (cfg_TmuxinatorProject config = [] \<or>
     \<not> tmuxinator_IsInstalled (tmuxinatorClient m) (h1 @ [CallGetSessionConfig name (platform m)]) \<longrightarrow>
       filter sideEffecting (newCalls h (snd (CreateOrSwitch m name h))) =
         [CallCreateSession
            (Session_zero\<lparr>Name := cfg_Name config, Type := SessionTypeTmux,
                          Directory := cfg_Directory config\<rparr>)]) \<and>
    (cfg_TmuxinatorProject config \<noteq> [] \<and>
     tmuxinator_IsInstalled (tmuxinatorClient m) (h1 @ [CallGetSessionConfig name (platform m)]) \<longrightarrow>
       createDefaultSession m (Some (config\<lparr>cfg_Directory := directory\<rparr>))
         (h1 @ [CallGetSessionConfig name (platform m)]) =
       createDefaultSession m (Some config) (h1 @ [CallGetSessionConfig name (platform m)]))"
proof -
  from tmuxinatorProjectCheck_calls [OF assms(2)]
  obtain cs where cs: "h1 = h @ [CallSessionExists name] @ cs" "filter sideEffecting cs = []"
    by auto
  with assms show ?thesis
    by (simp add: CreateOrSwitch_def createDefaultSession_def Let_def)
qed

theorem CreateOrSwitch_default_witness:
  "CreateOrSwitch
     (createTestManager [] [''other''] [defaultEntry ''default1'' [] ''~/dir1'' ''proj1''])
     ''default1'' [] =
     (Returned None,
      [CallSessionExists ''default1'', CallIsInstalled, CallProjectExists ''default1'',
       CallGetSessionConfig ''default1'' ''macos'', CallIsInstalled, CallIsInsideTmux,
       CallStartProject ''proj1'' False]) \<and>
   CreateOrSwitch (createTestManager [] [] [defaultEntry ''default1'' [] ''~/dir1'' []])
     ''default1'' [] =
     (Returned None,
      [CallSessionExists ''default1'', CallIsInstalled,
       CallGetSessionConfig ''default1'' ''macos'',
       CallCreateSession
         (Session_zero\<lparr>Name := ''default1'', Type := SessionTypeTmux,
                       Directory := ''~/dir1''\<rparr>)])"
proof -
  let ?c1 = "defaultEntry ''default1'' [] ''~/dir1'' ''proj1''"
  let ?c2 = "defaultEntry ''default1'' [] ''~/dir1'' []"
  let ?m1 = "createTestManager [] [''other''] [?c1]"
  let ?m2 = "createTestManager [] [] [?c2]"
  have a1: "tmux_SessionExists (tmuxClient ?m1) [] ''default1'' = Inr False"
    and b1: "tmuxinatorProjectCheck ?m1 ''default1'' ([] @ [CallSessionExists ''default1'']) =
      (False, [CallSessionExists ''default1'', CallIsInstalled, CallProjectExists ''default1''])"
    and c1: "config_GetSessionConfig (configLoader ?m1)
      [CallSessionExists ''default1'', CallIsInstalled, CallProjectExists ''default1'']
      ''default1'' (platform ?m1) = Inr (Some ?c1)"
    and d1: "cfg_TmuxinatorProject ?c1 \<noteq> [] \<and>
      tmuxinator_IsInstalled (tmuxinatorClient ?m1)
        ([CallSessionExists ''default1'', CallIsInstalled, CallProjectExists ''default1''] @
         [CallGetSessionConfig ''default1'' (platform ?m1)])"
    by (simp_all add: eval_defs)
  have a2: "tmux_SessionExists (tmuxClient ?m2) [] ''default1'' = Inr False"
    and b2: "tmuxinatorProjectCheck ?m2 ''default1'' ([] @ [CallSessionExists ''default1'']) =
      (False, [CallSessionExists ''default1'', CallIsInstalled])"
    and c2: "config_GetSessionConfig (configLoader ?m2)
      [CallSessionExists ''default1'', CallIsInstalled]
      ''default1'' (platform ?m2) = Inr (Some ?c2)"
    and d2: "cfg_TmuxinatorProject ?c2 = []"
    by (simp_all add: eval_defs)
  from d1 CreateOrSwitch_default [OF a1 b1 c1]
  have r1: "filter sideEffecting (newCalls [] (snd (CreateOrSwitch ?m1 ''default1'' []))) =
      [CallStartProject (cfg_TmuxinatorProject ?c1)
         (tmux_IsInsideTmux (tmuxClient ?m1)
            ([CallSessionExists ''default1'', CallIsInstalled, CallProjectExists ''default1''] @
             [CallGetSessionConfig ''default1'' (platform ?m1), CallIsInstalled]))]"
    by blast
  from d2 CreateOrSwitch_default [OF a2 b2 c2]
  have r2: "filter sideEffecting (newCalls [] (snd (CreateOrSwitch ?m2 ''default1'' []))) =
      [CallCreateSession
         (Session_zero\<lparr>Name := cfg_Name ?c2, Type := SessionTypeTmux,
                       Directory := cfg_Directory ?c2\<rparr>)]"
    by blast
  from r1 r2 show ?thesis
    by (simp add: CreateOrSwitch_def createDefaultSession_def eval_defs)
qed

text \<open>
  The delegation does depend on the launcher: with it not installed, an entry that
  names a launcher project is created by \<^verbatim>\<open>CreateSession\<close> with its directory, and
  \<^verbatim>\<open>StartProject\<close> is not called.
\<close>

theorem CreateOrSwitch_default_counterexample:
  "cfg_TmuxinatorProject (defaultEntry ''default1'' [] ''~/dir1'' ''proj1'') \<noteq> [] \<and>
   CreateOrSwitch (createTestManager [] [] [defaultEntry ''default1'' [] ''~/dir1'' ''proj1''])
     ''default1'' [] =
     (Returned None,
      [CallSessionExists ''default1'', CallIsInstalled,
       CallGetSessionConfig ''default1'' ''macos'', CallIsInstalled,
       CallCreateSession
         (Session_zero\<lparr>Name := ''default1'', Type := SessionTypeTmux,
                       Directory := ''~/dir1''\<rparr>)])"
  by (simp add: CreateOrSwitch_def createDefaultSession_def eval_defs)

section \<open>SessionExists and GoToSession\<close>

text \<open>
  C6. \<^verbatim>\<open>SessionExists\<close> makes no side-effecting call. An error of the live check is
  returned together with false. A positive live check gives true after that one call; a
  positive launcher check gives true without a configuration lookup; a configuration
  lookup without error gives true; a configuration lookup with an error gives false
  without an error; and an error of the launcher's existence check followed by an error
  of the configuration lookup gives false without an error.
\<close>

theorem SessionExists_probes:
  "\<not> list_ex sideEffecting (newCalls h (snd (SessionExists m name h))) \<and>
   (tmux_SessionExists (tmuxClient m) h name = Inl err \<longrightarrow>
      fst (SessionExists m name h) = (False, Some err)) \<and>
   (tmux_SessionExists (tmuxClient m) h name = Inr True \<longrightarrow>
      SessionExists m name h = ((True, None), h @ [CallSessionExists name])) \<and>
   (tmux_SessionExists (tmuxClient m) h name = Inr False \<and>
    tmuxinatorProjectCheck m name (h @ [CallSessionExists name]) = (True, h1) \<longrightarrow>
      SessionExists m name h = ((True, None), h1)) \<and>
   (tmux_SessionExists (tmuxClient m) h name = Inr False \<and>
    tmuxinatorProjectCheck m name (h @ [CallSessionExists name]) = (False, h1) \<and>
    config_GetSessionConfig (configLoader m) h1 name (platform m) = Inr config \<longrightarrow>
      fst (SessionExists m name h) = (True, None)) \<and>
   (tmux_SessionExists (tmuxClient m) h name = Inr False \<and>
    tmuxinatorProjectCheck m name (h @ [CallSessionExists name]) = (False, h1) \<and>
    config_GetSessionConfig (configLoader m) h1 name (platform m) = Inl err \<longrightarrow>
      fst (SessionExists m name h) = (False, None)) \<and>
   (tmux_SessionExists (tmuxClient m) h name = Inr False \<and>
    tmuxinator_IsInstalled (tmuxinatorClient m) (h @ [CallSessionExists name]) \<and>
    tmuxinator_ProjectExists (tmuxinatorClient m)
      (h @ [CallSessionExists name, CallIsInstalled]) name = Inl err \<and>
    config_GetSessionConfig (configLoader m)
      (h @ [CallSessionExists name, CallIsInstalled, CallProjectExists name])
      name (platform m) = Inl err' \<longrightarrow>
      fst (SessionExists m name h) = (False, None))"
proof -
  have quiet: "\<not> list_ex sideEffecting (newCalls h (snd (SessionExists m name h)))"
  proof -
    obtain b h1 where chk: "tmuxinatorProjectCheck m name (h @ [CallSessionExists name]) = (b, h1)"
      by (cases "tmuxinatorProjectCheck m name (h @ [CallSessionExists name])")
    from tmuxinatorProjectCheck_calls [OF chk]
    obtain cs where cs: "h1 = h @ [CallSessionExists name] @ cs" "filter sideEffecting cs = []"
      by auto
    from cs(2) have "\<not> list_ex sideEffecting cs"
      by (simp add: list_ex_iff filter_empty_conv)
    with chk cs(1) show ?thesis
      by (simp add: SessionExists_def split: sum.splits bool.splits)
  qed
  have rest: "(tmux_SessionExists (tmuxClient m) h name = Inl err \<longrightarrow>
      fst (SessionExists m name h) = (False, Some err)) \<and>
   (tmux_SessionExists (tmuxClient m) h name = Inr True \<longrightarrow>
      SessionExists m name h = ((True, None), h @ [CallSessionExists name])) \<and>
   (tmux_SessionExists (tmuxClient m) h name = Inr False \<and>
    tmuxinatorProjectCheck m name (h @ [CallSessionExists name]) = (True, h1) \<longrightarrow>
      SessionExists m name h = ((True, None), h1)) \<and>
   (tmux_SessionExists (tmuxClient m) h name = Inr False \<and>
    tmuxinatorProjectCheck m name (h @ [CallSessionExists name]) = (False, h1) \<and>
    config_GetSessionConfig (configLoader m) h1 name (platform m) = Inr config \<longrightarrow>
      fst (SessionExists m name h) = (True, None)) \<and>
   (tmux_SessionExists (tmuxClient m) h name = Inr False \<and>
    tmuxinatorProjectCheck m name (h @ [CallSessionExists name]) = (False, h1) \<and>
    config_GetSessionConfig (configLoader m) h1 name (platform m) = Inl err \<longrightarrow>
      fst (SessionExists m name h) = (False, None))"
    by (simp add: SessionExists_def)
  have errs: "tmux_SessionExists (tmuxClient m) h name = Inr False \<and>
    tmuxinator_IsInstalled (tmuxinatorClient m) (h @ [CallSessionExists name]) \<and>
    tmuxinator_ProjectExists (tmuxinatorClient m)
      (h @ [CallSessionExists name, CallIsInstalled]) name = Inl err \<and>
    config_GetSessionConfig (configLoader m)
      (h @ [CallSessionExists name, CallIsInstalled, CallProjectExists name])
      name (platform m) = Inl err' \<longrightarrow>
      fst (SessionExists m name h) = (False, None)"
    by (simp add: SessionExists_def tmuxinatorProjectCheck_def)
  from quiet rest errs show ?thesis by blast
qed

theorem SessionExists_probes_witness:
  "SessionExists ((createTestManager [] [] [])\<lparr>tmuxClient := failingTmuxClient\<rparr>) ''x'' [] =
     ((False, Some (Err ''no server running'')), [CallSessionExists ''x'']) \<and>
   SessionExists (createTestManager [liveSession ''existing'' 0] [''existing''] []) ''existing'' [] =
     ((True, None), [CallSessionExists ''existing'']) \<and>
   SessionExists (createTestManager [] [''proj1''] [defaultEntry ''proj1'' [] ''/p'' []])
       ''proj1'' [] =
     ((True, None), [CallSessionExists ''proj1'', CallIsInstalled, CallProjectExists ''proj1'']) \<and>
   SessionExists (createTestManager [] [] [defaultEntry ''default1'' [] ''~/dir1'' []])
       ''default1'' [] =
     ((True, None),
      [CallSessionExists ''default1'', CallIsInstalled,
       CallGetSessionConfig ''default1'' ''macos'']) \<and>
   SessionExists (createTestManager [] [] []) ''Z'' [] =
     ((False, None),
      [CallSessionExists ''Z'', CallIsInstalled, CallGetSessionConfig ''Z'' ''macos'']) \<and>
   SessionExists ((createTestManager [] [] [])\<lparr>tmuxinatorClient := failingTmuxinatorClient\<rparr>)
       ''Z'' [] =
     ((False, None),
      [CallSessionExists ''Z'', CallIsInstalled, CallProjectExists ''Z'',
       CallGetSessionConfig ''Z'' ''macos''])"
proof -
  let ?m1 = "(createTestManager [] [] [])\<lparr>tmuxClient := failingTmuxClient\<rparr>"
  let ?m2 = "createTestManager [liveSession ''existing'' 0] [''existing''] []"
  let ?m3 = "createTestManager [] [''proj1''] [defaultEntry ''proj1'' [] ''/p'' []]"
  let ?m4 = "createTestManager [] [] [defaultEntry ''default1'' [] ''~/dir1'' []]"
  let ?m5 = "createTestManager [] [] []"
  let ?m6 = "(createTestManager [] [] [])\<lparr>tmuxinatorClient := failingTmuxinatorClient\<rparr>"
  have h1: "tmux_SessionExists (tmuxClient ?m1) [] ''x'' = Inl (Err ''no server running'')"
    by (simp add: eval_defs)
  have h2: "tmux_SessionExists (tmuxClient ?m2) [] ''existing'' = Inr True"
    by (simp add: eval_defs)
  have h3: "tmux_SessionExists (tmuxClient ?m3) [] ''proj1'' = Inr False \<and>
      tmuxinatorProjectCheck ?m3 ''proj1'' ([] @ [CallSessionExists ''proj1'']) =
        (True, [CallSessionExists ''proj1'', CallIsInstalled, CallProjectExists ''proj1''])"
    by (simp add: eval_defs)
  have h4: "tmux_SessionExists (tmuxClient ?m4) [] ''default1'' = Inr False \<and>
      tmuxinatorProjectCheck ?m4 ''default1'' ([] @ [CallSessionExists ''default1'']) =
        (False, [CallSessionExists ''default1'', CallIsInstalled]) \<and>
      config_GetSessionConfig (configLoader ?m4) [CallSessionExists ''default1'', CallIsInstalled]
        ''default1'' (platform ?m4) = Inr (Some (defaultEntry ''default1'' [] ''~/dir1'' []))"
    by (simp add: eval_defs)
  have h5: "tmux_SessionExists (tmuxClient ?m5) [] ''Z'' = Inr False \<and>
      tmuxinatorProjectCheck ?m5 ''Z'' ([] @ [CallSessionExists ''Z'']) =
        (False, [CallSessionExists ''Z'', CallIsInstalled]) \<and>
      config_GetSessionConfig (configLoader ?m5) [CallSessionExists ''Z'', CallIsInstalled]
        ''Z'' (platform ?m5) = Inl (Err ''session not found'')"
    by (simp add: eval_defs)
  have h6: "tmux_SessionExists (tmuxClient ?m6) [] ''Z'' = Inr False \<and>
      tmuxinator_IsInstalled (tmuxinatorClient ?m6) ([] @ [CallSessionExists ''Z'']) \<and>
      tmuxinator_ProjectExists (tmuxinatorClient ?m6)
        ([] @ [CallSessionExists ''Z'', CallIsInstalled]) ''Z'' =
        Inl (Err ''tmuxinator list failed'') \<and>
      config_GetSessionConfig (configLoader ?m6)
        ([] @ [CallSessionExists ''Z'', CallIsInstalled, CallProjectExists ''Z''])
        ''Z'' (platform ?m6) = Inl (Err ''session not found'')"
    by (simp add: eval_defs)
  from h1 SessionExists_probes [of "[]" ?m1 "''x''" "Err ''no server running''"]
  have r1: "fst (SessionExists ?m1 ''x'' []) = (False, Some (Err ''no server running''))"
    by blast
  from h2 SessionExists_probes [of "[]" ?m2 "''existing''"]
  have r2: "SessionExists ?m2 ''existing'' [] = ((True, None), [] @ [CallSessionExists ''existing''])"
    by blast
  from h3 SessionExists_probes [of "[]" ?m3 "''proj1''" _
      "[CallSessionExists ''proj1'', CallIsInstalled, CallProjectExists ''proj1'']"]
  have r3: "SessionExists ?m3 ''proj1'' [] =
      ((True, None), [CallSessionExists ''proj1'', CallIsInstalled, CallProjectExists ''proj1''])"
    by blast
  from h4 SessionExists_probes [of "[]" ?m4 "''default1''" _
      "[CallSessionExists ''default1'', CallIsInstalled]"
      "Some (defaultEntry ''default1'' [] ''~/dir1'' [])"]
  have r4: "fst (SessionExists ?m4 ''default1'' []) = (True, None)"
    by blast
  from h5 SessionExists_probes [of "[]" ?m5 "''Z''" "Err ''session not found''"
      "[CallSessionExists ''Z'', CallIsInstalled]"]
  have r5: "fst (SessionExists ?m5 ''Z'' []) = (False, None)"
    by blast
  from h6 SessionExists_probes [of "[]" ?m6 "''Z''" "Err ''tmuxinator list failed''" _ _
      "Err ''session not found''"]
  have r6: "fst (SessionExists ?m6 ''Z'' []) = (False, None)"
    by blast
  have s1: "snd (SessionExists ?m1 ''x'' []) = [CallSessionExists ''x'']"
    by (simp add: SessionExists_def eval_defs)
  have s4: "snd (SessionExists ?m4 ''default1'' []) =
      [CallSessionExists ''default1'', CallIsInstalled,
       CallGetSessionConfig ''default1'' ''macos'']"
    by (simp add: SessionExists_def eval_defs)
  have s5: "snd (SessionExists ?m5 ''Z'' []) =
      [CallSessionExists ''Z'', CallIsInstalled, CallGetSessionConfig ''Z'' ''macos'']"
    by (simp add: SessionExists_def eval_defs)
  have s6: "snd (SessionExists ?m6 ''Z'' []) =
      [CallSessionExists ''Z'', CallIsInstalled, CallProjectExists ''Z'',
       CallGetSessionConfig ''Z'' ''macos'']"
    by (simp add: SessionExists_def eval_defs)
  from r1 r2 r3 r4 r5 r6 s1 s4 s5 s6 show ?thesis
    by (simp add: prod_eq_iff)
qed

text \<open>
  C3. When \<open>name\<close> is not live, the launcher check is negative and the configuration
  lookup returns an error, \<^verbatim>\<open>GoToSession\<close> returns the error
  \<open>session 'name' not found\<close>; the calls it has made are those three probes, none of
  them side-effecting and none a creation call.
\<close>

theorem GoToSession_not_found:
  assumes "tmux_SessionExists (tmuxClient m) h name = Inr False"
    and "tmuxinatorProjectCheck m name (h @ [CallSessionExists name]) = (False, h1)"
    and "config_GetSessionConfig (configLoader m) h1 name (platform m) = Inl err"
  shows "fst (GoToSession m name h) =
           Returned (Some (Err (''session '' @ [CHR 0x27] @ name @ [CHR 0x27] @ '' not found''))) \<and>
         snd (GoToSession m name h) = h1 @ [CallGetSessionConfig name (platform m)] \<and>
         \<not> list_ex sideEffecting (newCalls h (snd (GoToSession m name h))) \<and>
         \<not> list_ex isCreateCall (newCalls h (snd (GoToSession m name h)))"
proof -
  from tmuxinatorProjectCheck_calls [OF assms(2)]
  obtain cs where cs: "h1 = h @ [CallSessionExists name] @ cs" "filter sideEffecting cs = []"
    "set cs \<subseteq> {CallIsInstalled, CallProjectExists name}"
    by auto
  from cs(3) have nocreate: "\<not> list_ex isCreateCall cs"
    by (auto simp: list_ex_iff)
  from cs(2) have noside: "\<not> list_ex sideEffecting cs"
    by (simp add: list_ex_iff filter_empty_conv)
  from assms cs(1) nocreate noside show ?thesis
    by (simp add: GoToSession_def SessionExists_def)
qed

theorem GoToSession_not_found_witness:
  "GoToSession (createTestManager [] [] []) ''Z'' [] =
     (Returned (Some (Err (''session '' @ [CHR 0x27] @ ''Z'' @ [CHR 0x27] @ '' not found''))),
      [CallSessionExists ''Z'', CallIsInstalled, CallGetSessionConfig ''Z'' ''macos''])"
proof -
  let ?m = "createTestManager [] [] []"
  have a: "tmux_SessionExists (tmuxClient ?m) [] ''Z'' = Inr False"
    by (simp add: eval_defs)
  have b: "tmuxinatorProjectCheck ?m ''Z'' ([] @ [CallSessionExists ''Z'']) =
      (False, [CallSessionExists ''Z'', CallIsInstalled])"
    by (simp add: eval_defs)
  have c: "config_GetSessionConfig (configLoader ?m) [CallSessionExists ''Z'', CallIsInstalled]
      ''Z'' (platform ?m) = Inl (Err ''session not found'')"
    by (simp add: eval_defs)
  from GoToSession_not_found [OF a b c] show ?thesis
    by (simp add: eval_defs prod_eq_iff GoToSession_def SessionExists_def)
qed

section \<open>GetSessionInfo\<close>

lemma find_Name_eq:
  "find (\<lambda>sess. Name sess = n) sessions = Some s \<Longrightarrow> Name s = n"
  by (induction sessions) (auto split: if_splits)

text \<open>
  C8. When the multiplexer confirms \<open>n\<close> as live and the first record named \<open>n\<close> of its
  listing is a live record (type tmux), \<^verbatim>\<open>GetSessionInfo\<close> returns \<open>n (1 window)\<close> for a
  window count of 1 and \<open>n (3 windows)\<close> for a window count of 3. When \<open>n\<close> is not live
  and no launcher project, and the configuration has an entry for it, the result is
  \<open>default: <description>\<close> for a non-empty description and \<open>default (not started)\<close> for
  an empty one. No error is returned in any of the four cases.
\<close>

theorem GetSessionInfo_strings:
  "(tmux_SessionExists (tmuxClient m) h n = Inr True \<and>
    tmux_ListSessions (tmuxClient m) (h @ [CallSessionExists n]) = Inr sessions \<and>
    find (\<lambda>sess. Name sess = n) sessions = Some s \<and> Type s = SessionTypeTmux \<longrightarrow>
      (WindowCount s = 1 \<longrightarrow>
         fst (GetSessionInfo m n h) = Returned (n @ '' (1 window)'', None)) \<and>
      (WindowCount s = 3 \<longrightarrow>
         fst (GetSessionInfo m n h) = Returned (n @ '' (3 windows)'', None)))
   \<and>
   (tmux_SessionExists (tmuxClient m) h n = Inr False \<and>
    tmuxinatorProjectCheck m n (h @ [CallSessionExists n]) = (False, h') \<and>
    config_GetSessionConfig (configLoader m) h' n (platform m) = Inr (Some config) \<longrightarrow>
      (cfg_Description config \<noteq> [] \<longrightarrow>
         fst (GetSessionInfo m n h) =
           Returned (''default: '' @ cfg_Description config, None)) \<and>
      (cfg_Description config = [] \<longrightarrow>
         fst (GetSessionInfo m n h) = Returned (''default (not started)'', None)))"
proof (intro conjI impI)
  assume live: "tmux_SessionExists (tmuxClient m) h n = Inr True \<and>
    tmux_ListSessions (tmuxClient m) (h @ [CallSessionExists n]) = Inr sessions \<and>
    find (\<lambda>sess. Name sess = n) sessions = Some s \<and> Type s = SessionTypeTmux"
  then have info: "fst (GetSessionInfo m n h) = Returned (DisplayInfo s, None)"
    by (simp add: GetSessionInfo_def)
  from live have name: "Name s = n"
    using find_Name_eq by blast
  {
    assume "WindowCount s = 1"
    with live name info
    show "fst (GetSessionInfo m n h) = Returned (n @ '' (1 window)'', None)"
      by (simp add: DisplayInfo_def formatWindowCount_def)
  }
  {
    assume "WindowCount s = 3"
    with live name info
    show "fst (GetSessionInfo m n h) = Returned (n @ '' (3 windows)'', None)"
      by (simp add: DisplayInfo_def formatWindowCount_def Sprintf_d_def)
  }
next
  assume dflt: "tmux_SessionExists (tmuxClient m) h n = Inr False \<and>
    tmuxinatorProjectCheck m n (h @ [CallSessionExists n]) = (False, h') \<and>
    config_GetSessionConfig (configLoader m) h' n (platform m) = Inr (Some config)"
  {
    assume "cfg_Description config \<noteq> []"
    with dflt
    show "fst (GetSessionInfo m n h) =
        Returned (''default: '' @ cfg_Description config, None)"
      by (simp add: GetSessionInfo_def GetSessionInfo_rest_def)
  }
  {
    assume "cfg_Description config = []"
    with dflt
    show "fst (GetSessionInfo m n h) = Returned (''default (not started)'', None)"
      by (simp add: GetSessionInfo_def GetSessionInfo_rest_def)
  }
qed

theorem GetSessionInfo_strings_witness:
  "fst (GetSessionInfo
          (createTestManager [liveSession ''active'' 1] [''proj1''] [defaultEntry ''default1'' ''Test default'' ''~/dir1'' []])
          ''active'' [])
     = Returned (''active (1 window)'', None) \<and>
   fst (GetSessionInfo
          (createTestManager [liveSession ''active'' 3] [''proj1''] [defaultEntry ''default1'' ''Test default'' ''~/dir1'' []])
          ''active'' [])
     = Returned (''active (3 windows)'', None) \<and>
   fst (GetSessionInfo
          (createTestManager [liveSession ''active'' 3] [''proj1''] [defaultEntry ''default1'' ''Test default'' ''~/dir1'' []])
          ''default1'' [])
     = Returned (''default: Test default'', None) \<and>
   fst (GetSessionInfo
          (createTestManager [liveSession ''active'' 3] [''proj1''] [defaultEntry ''default1'' [] ''~/dir1'' []]) ''default1'' [])
     = Returned (''default (not started)'', None)"
  using
    GetSessionInfo_strings
      [of "createTestManager [liveSession ''active'' 1] [''proj1''] [defaultEntry ''default1'' ''Test default'' ''~/dir1'' []]"
          "[]" "''active''" "[liveSession ''active'' 1]" "liveSession ''active'' 1"]
    GetSessionInfo_strings
      [of "createTestManager [liveSession ''active'' 3] [''proj1''] [defaultEntry ''default1'' ''Test default'' ''~/dir1'' []]"
          "[]" "''active''" "[liveSession ''active'' 3]" "liveSession ''active'' 3"]
    GetSessionInfo_strings
      [of "createTestManager [liveSession ''active'' 3] [''proj1''] [defaultEntry ''default1'' ''Test default'' ''~/dir1'' []]"
          "[]" "''default1''" _ _
          "[CallSessionExists ''default1'', CallIsInstalled, CallProjectExists ''default1'']"
          "defaultEntry ''default1'' ''Test default'' ''~/dir1'' []"]
    GetSessionInfo_strings
      [of "createTestManager [liveSession ''active'' 3] [''proj1''] [defaultEntry ''default1'' [] ''~/dir1'' []]"
          "[]" "''default1''" _ _
          "[CallSessionExists ''default1'', CallIsInstalled, CallProjectExists ''default1'']"
          "defaultEntry ''default1'' [] ''~/dir1'' []"]
  by (simp add: mock_defs liveSession_def defaultEntry_def tmuxinatorProjectCheck_def
      Session_zero_def SessionTypeTmux_def)

text \<open>
  C10. When the live check confirms \<open>name\<close> but the listing fetched next, without
  error, has no record of that name, \<^verbatim>\<open>GetSessionInfo\<close> goes on as for a name that
  is not live: a positive launcher check gives \<open>tmuxinator project\<close>, else a
  configuration entry gives \<open>default: <description>\<close> or \<open>default (not started)\<close>,
  else, the lookup returning an error, the result is \<open>new session\<close>; no error is
  returned in any of these cases.
\<close>

theorem GetSessionInfo_stale_live:
  assumes "tmux_SessionExists (tmuxClient m) h name = Inr True"
    and "tmux_ListSessions (tmuxClient m) (h @ [CallSessionExists name]) = Inr sessions"
    and "name \<notin> Name ` set sessions"
  shows
   "(tmuxinatorProjectCheck m name (h @ [CallSessionExists name, CallListSessions]) = (True, h1) \<longrightarrow>
       fst (GetSessionInfo m name h) = Returned (''tmuxinator project'', None)) \<and>
    (tmuxinatorProjectCheck m name (h @ [CallSessionExists name, CallListSessions]) = (False, h1) \<and>
     config_GetSessionConfig (configLoader m) h1 name (platform m) = Inr (Some config) \<and>
     cfg_Description config \<noteq> [] \<longrightarrow>
       fst (GetSessionInfo m name h) =
         Returned (''default: '' @ cfg_Description config, None)) \<and>
    (tmuxinatorProjectCheck m name (h @ [CallSessionExists name, CallListSessions]) = (False, h1) \<and>
     config_GetSessionConfig (configLoader m) h1 name (platform m) = Inr (Some config) \<and>
     cfg_Description config = [] \<longrightarrow>
       fst (GetSessionInfo m name h) = Returned (''default (not started)'', None)) \<and>
    (tmuxinatorProjectCheck m name (h @ [CallSessionExists name, CallListSessions]) = (False, h1) \<and>
     config_GetSessionConfig (configLoader m) h1 name (platform m) = Inl err \<longrightarrow>
       fst (GetSessionInfo m name h) = Returned (''new session'', None))"
proof -
  from assms(3) have "find (\<lambda>sess. Name sess = name) sessions = None"
    by (auto simp: find_None_iff)
  with assms(1,2) have "GetSessionInfo m name h =
      GetSessionInfo_rest m name (h @ [CallSessionExists name, CallListSessions])"
    by (simp add: GetSessionInfo_def)
  then show ?thesis
    by (simp add: GetSessionInfo_rest_def)
qed

theorem GetSessionInfo_stale_live_witness:
  "tmux_SessionExists (tmuxClient (staleManager [] [])) [] ''gone'' = Inr True \<and>
   tmux_ListSessions (tmuxClient (staleManager [] [])) [CallSessionExists ''gone''] = Inr [] \<and>
   fst (GetSessionInfo (staleManager [''gone''] []) ''gone'' []) =
     Returned (''tmuxinator project'', None) \<and>
   fst (GetSessionInfo (staleManager [] [defaultEntry ''gone'' ''Test default'' ''/g'' []])
          ''gone'' []) =
     Returned (''default: Test default'', None) \<and>
   fst (GetSessionInfo (staleManager [] [defaultEntry ''gone'' [] ''/g'' []]) ''gone'' []) =
     Returned (''default (not started)'', None) \<and>
   fst (GetSessionInfo (staleManager [] []) ''gone'' []) = Returned (''new session'', None)"
proof -
  let ?m1 = "staleManager [''gone''] []"
  let ?m2 = "staleManager [] [defaultEntry ''gone'' ''Test default'' ''/g'' []]"
  let ?m3 = "staleManager [] [defaultEntry ''gone'' [] ''/g'' []]"
  let ?m4 = "staleManager [] []"
  have l1: "tmux_SessionExists (tmuxClient (staleManager ps ds)) [] ''gone'' = Inr True"
    for ps ds
    by (simp add: staleManager_def eval_defs)
  have l2: "tmux_ListSessions (tmuxClient (staleManager ps ds)) ([] @ [CallSessionExists ''gone''])
      = Inr []" for ps ds
    by (simp add: staleManager_def eval_defs)
  have l3: "''gone'' \<notin> Name ` set []"
    by simp
  have c1: "tmuxinatorProjectCheck ?m1 ''gone'' ([] @ [CallSessionExists ''gone'', CallListSessions]) =
      (True, [CallSessionExists ''gone'', CallListSessions, CallIsInstalled,
              CallProjectExists ''gone''])"
    by (simp add: staleManager_def eval_defs)
  have c2: "tmuxinatorProjectCheck ?m2 ''gone'' ([] @ [CallSessionExists ''gone'', CallListSessions]) =
      (False, [CallSessionExists ''gone'', CallListSessions, CallIsInstalled]) \<and>
     config_GetSessionConfig (configLoader ?m2)
       [CallSessionExists ''gone'', CallListSessions, CallIsInstalled] ''gone'' (platform ?m2) =
       Inr (Some (defaultEntry ''gone'' ''Test default'' ''/g'' [])) \<and>
     cfg_Description (defaultEntry ''gone'' ''Test default'' ''/g'' []) \<noteq> []"
    by (simp add: staleManager_def eval_defs)
  have c3: "tmuxinatorProjectCheck ?m3 ''gone'' ([] @ [CallSessionExists ''gone'', CallListSessions]) =
      (False, [CallSessionExists ''gone'', CallListSessions, CallIsInstalled]) \<and>
     config_GetSessionConfig (configLoader ?m3)
       [CallSessionExists ''gone'', CallListSessions, CallIsInstalled] ''gone'' (platform ?m3) =
       Inr (Some (defaultEntry ''gone'' [] ''/g'' [])) \<and>
     cfg_Description (defaultEntry ''gone'' [] ''/g'' []) = []"
    by (simp add: staleManager_def eval_defs)
  have c4: "tmuxinatorProjectCheck ?m4 ''gone'' ([] @ [CallSessionExists ''gone'', CallListSessions]) =
      (False, [CallSessionExists ''gone'', CallListSessions, CallIsInstalled]) \<and>
     config_GetSessionConfig (configLoader ?m4)
       [CallSessionExists ''gone'', CallListSessions, CallIsInstalled] ''gone'' (platform ?m4) =
       Inl (Err ''session not found'')"
    by (simp add: staleManager_def eval_defs)
  from c1 GetSessionInfo_stale_live [OF l1 l2 l3]
  have r1: "fst (GetSessionInfo ?m1 ''gone'' []) = Returned (''tmuxinator project'', None)"
    by blast
  from c2 GetSessionInfo_stale_live [OF l1 l2 l3]
  have r2: "fst (GetSessionInfo ?m2 ''gone'' []) =
      Returned (''default: '' @ cfg_Description (defaultEntry ''gone'' ''Test default'' ''/g'' []),
                None)"
    by blast
  from c3 GetSessionInfo_stale_live [OF l1 l2 l3]
  have r3: "fst (GetSessionInfo ?m3 ''gone'' []) = Returned (''default (not started)'', None)"
    by blast
  from c4 GetSessionInfo_stale_live [OF l1 l2 l3]
  have r4: "fst (GetSessionInfo ?m4 ''gone'' []) = Returned (''new session'', None)"
    by blast
  from r1 r2 r3 r4 l1 [of "[]" "[]"] l2 [of "[]" "[]"] show ?thesis
    by (simp add: defaultEntry_def)
qed

end
